theory Spec2Isabelle
  imports Complex_Main
begin

section \<open>Data model\<close>

text \<open>
  The wrappers of this repository sequence calls into external collaborators: the geometry
  engine (isce3), raster and HDF5 input/output, the operating system and the burst reader.
  The model makes every such call an event of type \<open>call\<close>. A run appends the calls it
  makes to the \<open>trace\<close> of the world, in order, and an environment decides which calls raise.
  Python exceptions are values of type \<open>error\<close>; no wrapper contains a \<open>try\<close> statement.
\<close>

datatype error =
    ValueError string
  | FileNotFoundError string
  | FileExistsError string
  | NotADirectoryError string
  | KeyError string
  | TypeError string
  | RuntimeError string

text \<open>
  \<open>burst.sensing_start\<close> is a Python \<open>datetime\<close>; the wrappers only ever format it with
  \<open>strftime("%Y%m%d")\<close>. The time of day is kept to show that it plays no role.
\<close>

record datetime =
  year :: nat
  month :: nat
  day :: nat
  time_of_day :: nat

definition digit :: "nat \<Rightarrow> char" where
  "digit n = ''0123456789'' ! (n mod 10)"

fun decimal :: "nat \<Rightarrow> string" where
  "decimal n = (if n < 10 then [digit n] else decimal (n div 10) @ [digit n])"

definition two_digits :: "nat \<Rightarrow> string" where
  "two_digits n = (if n < 10 then CHR ''0'' # decimal n else decimal n)"

text \<open>\<open>%Y\<close> prints the year in decimal, \<open>%m\<close> and \<open>%d\<close> print two digits.\<close>

definition strftime_Ymd :: "datetime \<Rightarrow> string" where
  "strftime_Ymd t = decimal (year t) @ two_digits (month t) @ two_digits (day t)"

text \<open>
  A burst as the burst reader hands it over. Radar grid and orbit are objects of the
  geometry engine that the wrappers pass on unopened: they are opaque handles here.
\<close>

record burst =
  burst_id :: string
  sensing_start :: datetime
  polarization :: string
  ipf_version :: string
  radargrid :: nat
  orbit :: nat
  doppler_lut2d :: nat
  az_carrier_poly :: nat
  first_valid_line :: nat
  last_valid_line :: nat
  first_valid_sample :: nat
  last_valid_sample :: nat

record geo_grid =
  start_x :: real
  start_y :: real
  spacing_x :: real
  spacing_y :: real
  width :: nat
  length_gg :: nat
  epsg :: int

record geo2rdr_params =
  threshold :: real
  numiter :: int
  lines_per_block :: nat

record rdr2geo_params =
  enabled :: bool
  geocode_metadata_layers :: bool
  compute_longitude :: bool
  compute_latitude :: bool
  compute_height :: bool
  compute_incidence_angle :: bool
  compute_local_incidence_angle :: bool
  compute_azimuth_angle :: bool
  compute_layover_shadow_mask :: bool

record geocoding_params =
  flatten :: bool
  output_format :: string

record out_paths =
  output_directory :: string
  scratch_directory :: string

text \<open>
  The run configuration. \<open>cfg.geogrids\<close> holds mutable Python objects, so the dictionary
  lives in the world (below) and not here.
\<close>

text \<open>
  A lookup table of the geometry engine (\<open>isce3.core.LUT2d\<close>): origin, spacing and a
  two-dimensional array of samples.
\<close>

type_synonym ndarray = "real list list"

record lut2d =
  x_start :: real
  y_start :: real
  x_spacing :: real
  y_spacing :: real
  data :: ndarray

record runconfig =
  is_reference :: bool
  dem :: string
  gpu_enabled :: bool
  gpu_id :: int
  geo2rdr_cfg :: geo2rdr_params
  rdr2geo_cfg :: rdr2geo_params
  geocoding_cfg :: geocoding_params
  split_spectrum_enabled :: bool
  bursts :: "burst list"
  scratch_path :: string
  product_path :: string
  reference_radar_info_path :: string
  output_paths :: "(string \<times> string) \<rightharpoonup> out_paths"

section \<open>External calls, the world and the environment\<close>

datatype call =
    Journal string
  | Raster string
  | Make_projection int
  | Use_gpu bool int
  | Set_device int
  | Makedirs string bool
  | Geo2Rdr_init bool burst int real int nat
  | Geo2Rdr_geo2rdr burst string string
  | Run_rdr2geo bool
  | Run_resample
  | Slc_to_vrt_file burst string
  | Apply_eap_correction burst string string
  | Range_split_spectrum burst string string
  | Raster_create string nat nat nat string
  | Geocode_slc burst string string string geo_grid real int nat bool
  | Set_geotransform string "real list"
  | Set_epsg string int
  | Metadata_from_georunconfig string
  | Write_json string
  | GeocodeFloat32_init burst int real int
  | Geogrid burst geo_grid
  | H5_file string
  | H5_create_dataset string string bool nat nat
  | Geocode burst string string string nat bool
  | Az_fm_rate_mismatch_mitigation burst string "string option" "(string \<times> real) list"
  | Np_add ndarray ndarray
  | LUT2d_init real real real real ndarray

text \<open>
  The world: the directory tree (\<open>dirs\<close>, and \<open>files\<close> for names taken by something that is
  not a directory), the GeoGrid objects of the configuration, the trace of external calls,
  and the list \<open>created\<close> of directories that \<open>os.makedirs\<close> really had to create, in order.
  Path names are taken literally (no normalisation, no links).
\<close>

record world =
  dirs :: "string set"
  files :: "string set"
  geogrids :: "string \<rightharpoonup> geo_grid"
  trace :: "call list"
  created :: "string list"

text \<open>
  The environment: \<open>fault\<close> says, from the calls made so far and the call being made,
  whether the collaborator raises; the other fields are the values collaborators return
  that the wrappers look at; \<open>elapsed\<close> is the time the clock measures for a stage.
  \<open>bistatic_delay\<close> and \<open>geometrical_and_steering_doppler\<close> are computations of the burst
  reader on the metadata it has already parsed: they are functions of the burst and the two
  steps. \<open>az_fm_rate_mismatch\<close> is what \<open>burst.az_fm_rate_mismatch_mitigation\<close> returns
  when it returns; it reads the DEM and writes to the scratch directory, so the call itself
  is an event that may raise. \<open>np_add\<close> is numpy's \<open>+\<close> on two arrays.
\<close>

record env =
  fault :: "call list \<Rightarrow> call \<Rightarrow> error option"
  use_gpu :: "bool \<Rightarrow> int \<Rightarrow> bool"
  get_epsg :: "string \<Rightarrow> int"
  num_bands :: "string \<Rightarrow> nat"
  eap_phase_correction :: "string \<Rightarrow> bool"
  elapsed :: "string \<Rightarrow> string"
  bistatic_delay :: "burst \<Rightarrow> real \<Rightarrow> real \<Rightarrow> lut2d"
  geometrical_and_steering_doppler :: "burst \<Rightarrow> real \<Rightarrow> real \<Rightarrow> lut2d"
  az_fm_rate_mismatch :: "burst \<Rightarrow> string \<Rightarrow> string option \<Rightarrow> lut2d"
  np_add :: "ndarray \<Rightarrow> ndarray \<Rightarrow> ndarray"

subsection \<open>Exceptions and state\<close>

type_synonym 'a prog = "world \<Rightarrow> world \<times> (error + 'a)"

definition ret :: "'a \<Rightarrow> 'a prog" where
  "ret x = (\<lambda>w. (w, Inr x))"

definition raise :: "error \<Rightarrow> 'a prog" where
  "raise e = (\<lambda>w. (w, Inl e))"

definition bind :: "'a prog \<Rightarrow> ('a \<Rightarrow> 'b prog) \<Rightarrow> 'b prog" where
  "bind m f = (\<lambda>w. case m w of (w', Inl e) \<Rightarrow> (w', Inl e) | (w', Inr x) \<Rightarrow> f x w')"

text \<open>A \<open>for\<close> loop that threads the loop's local state through the body.\<close>

primrec for_each :: "('a \<Rightarrow> 's \<Rightarrow> 's prog) \<Rightarrow> 'a list \<Rightarrow> 's \<Rightarrow> 's prog" where
  "for_each body [] s = ret s"
| "for_each body (x # xs) s = bind (body x s) (for_each body xs)"

subsection \<open>Directories\<close>

text \<open>
  The proper ancestors of a path name: its prefixes that end where a run of slashes begins,
  so \<open>a/b/c\<close> has the ancestors \<open>a\<close> and \<open>a/b\<close>.
\<close>

definition parent_dirs :: "string \<Rightarrow> string list" where
  "parent_dirs name =
     map (\<lambda>i. take i name)
       (filter (\<lambda>i. name ! i = CHR ''/'' \<and> name ! (i - 1) \<noteq> CHR ''/'') [1..<length name])"

text \<open>
  \<open>os.makedirs(name, exist_ok=exist_ok)\<close>: an existing directory is an error only without
  \<open>exist_ok\<close>; a name or an ancestor taken by a file is an error; otherwise the missing
  ancestors and the directory itself are created.
\<close>

definition makedirs :: "string \<Rightarrow> bool \<Rightarrow> world \<Rightarrow> error + world" where
  "makedirs name exist_ok w =
     (if name = [] then Inl (FileNotFoundError name)
      else if name \<in> dirs w then (if exist_ok then Inr w else Inl (FileExistsError name))
      else if name \<in> files w then Inl (FileExistsError name)
      else case find (\<lambda>a. a \<in> files w) (parent_dirs name) of
             Some a \<Rightarrow> Inl (NotADirectoryError a)
           | None \<Rightarrow>
               let new = filter (\<lambda>a. a \<notin> dirs w) (parent_dirs name) @ [name]
               in Inr (w\<lparr>dirs := dirs w \<union> set new, created := created w @ new\<rparr>))"

subsection \<open>Performing one external call\<close>

fun makedirs_args :: "call \<Rightarrow> (string \<times> bool) option" where
  "makedirs_args (Makedirs name exist_ok) = Some (name, exist_ok)"
| "makedirs_args _ = None"

text \<open>
  A call is written to the trace and then either raises or returns. Directory creation is
  decided by the directory tree, every other call by the environment.
\<close>

definition perform :: "env \<Rightarrow> call \<Rightarrow> world \<Rightarrow> world \<times> error option" where
  "perform ev c w =
     (let w1 = w\<lparr>trace := trace w @ [c]\<rparr> in
      case makedirs_args c of
        Some (name, exist_ok) \<Rightarrow>
          (case makedirs name exist_ok w1 of Inl e \<Rightarrow> (w1, Some e) | Inr w2 \<Rightarrow> (w2, None))
      | None \<Rightarrow> (w1, fault ev (trace w) c))"

definition call :: "env \<Rightarrow> call \<Rightarrow> unit prog" where
  "call ev c = (\<lambda>w. case perform ev c w of
                      (w', Some e) \<Rightarrow> (w', Inl e)
                    | (w', None) \<Rightarrow> (w', Inr ()))"

section \<open>The geo2rdr wrapper (s1_geo2rdr.py)\<close>

text \<open>The body of the loop over \<open>cfg.bursts\<close>; the loop's state is \<open>id_dates_processed\<close>.\<close>

definition geo2rdr_burst ::
  "env \<Rightarrow> runconfig \<Rightarrow> bool \<Rightarrow> int \<Rightarrow> burst \<Rightarrow> (string \<times> string) list
    \<Rightarrow> (string \<times> string) list prog" where
  "geo2rdr_burst ev cfg cuda ellipsoid b id_dates_processed =
     (let date_str = strftime_Ymd (sensing_start b);
          id_date = (burst_id b, date_str);
          top_output_path = scratch_path cfg @ ''/'' @ burst_id b
      in bind (call ev (Makedirs top_output_path True)) (\<lambda>_.
         if id_date \<in> set id_dates_processed then ret id_dates_processed
         else
           let processed = id_dates_processed @ [id_date];
               topo_raster = reference_radar_info_path cfg @ ''/topo.vrt''
           in bind (call ev (Raster topo_raster)) (\<lambda>_.
              let burst_output_path = top_output_path @ ''/'' @ date_str
              in bind (call ev (Makedirs burst_output_path True)) (\<lambda>_.
                 bind (call ev (Geo2Rdr_init cuda b ellipsoid
                                  (threshold (geo2rdr_cfg cfg)) (numiter (geo2rdr_cfg cfg))
                                  (lines_per_block (geo2rdr_cfg cfg)))) (\<lambda>_.
                 bind (call ev (Geo2Rdr_geo2rdr b topo_raster burst_output_path)) (\<lambda>_.
                 ret processed))))))"

definition s1_geo2rdr_run :: "env \<Rightarrow> runconfig \<Rightarrow> unit prog" where
  "s1_geo2rdr_run ev cfg =
     bind (call ev (Journal ''Starting s1_geo2rdr burst'')) (\<lambda>_.
     bind (call ev (Raster (dem cfg))) (\<lambda>_.
     let epsg = get_epsg ev (dem cfg) in
     bind (call ev (Make_projection epsg)) (\<lambda>_.
     bind (call ev (Use_gpu (gpu_enabled cfg) (gpu_id cfg))) (\<lambda>_.
     let cuda = use_gpu ev (gpu_enabled cfg) (gpu_id cfg) in
     bind (if cuda then call ev (Set_device (gpu_id cfg)) else ret ()) (\<lambda>_.
     bind (for_each (geo2rdr_burst ev cfg cuda epsg) (bursts cfg) []) (\<lambda>_.
     call ev (Journal (''s1_geo2rdr burst successfully ran in '' @ elapsed ev ''s1_geo2rdr''
                         @ '' (hr:min:sec)''))))))))"

section \<open>The geocoding wrapper (s1_geocode_slc.py)\<close>

text \<open>\<open>cfg.geogrids[burst_id]\<close>: a dictionary lookup, \<open>KeyError\<close> for a missing key.\<close>

definition read_geogrid :: "string \<Rightarrow> geo_grid prog" where
  "read_geogrid k = (\<lambda>w. case geogrids w k of
                           None \<Rightarrow> (w, Inl (KeyError k))
                         | Some g \<Rightarrow> (w, Inr g))"

text \<open>Python's \<open>s.replace(old, new)\<close>: every occurrence, left to right, without overlap.\<close>

function replace_str :: "string \<Rightarrow> string \<Rightarrow> string \<Rightarrow> string" where
  "replace_str old new s =
     (if s = [] \<or> old = [] then s
      else if take (length old) s = old then new @ replace_str old new (drop (length old) s)
      else hd s # replace_str old new (tl s))"
  by pat_completeness auto
termination
  by (relation "measure (\<lambda>(old, new, s). length s)") (auto simp: Suc_le_eq)

definition geotransform :: "geo_grid \<Rightarrow> real list" where
  "geotransform g = [start_x g, spacing_x g, 0, start_y g, 0, spacing_y g]"

text \<open>
  The body of the loop over \<open>cfg.bursts\<close>. There is no list of processed pairs in this
  wrapper: every burst of the list is geocoded. \<open>s1_geocode_metadata.run\<close> has the parameters
  \<open>(cfg, burst, fetch_from_scratch=False)\<close> and is called here as
  \<open>run(cfg, fetch_from_scratch=True)\<close>, which Python rejects with a \<open>TypeError\<close> before the
  callee's body starts.
\<close>

definition geocode_slc_burst :: "env \<Rightarrow> runconfig \<Rightarrow> burst \<Rightarrow> unit prog" where
  "geocode_slc_burst ev cfg b =
     bind (call ev (Raster (dem cfg))) (\<lambda>_.
     let epsg = get_epsg ev (dem cfg) in
     bind (call ev (Make_projection epsg)) (\<lambda>_.
     let date_str = strftime_Ymd (sensing_start b);
         id_pol = burst_id b @ ''_'' @ polarization b in
     bind (read_geogrid (burst_id b)) (\<lambda>geo_grid.
     let burst_output_path = product_path cfg @ ''/'' @ burst_id b @ ''/'' @ date_str in
     bind (call ev (Makedirs burst_output_path True)) (\<lambda>_.
     let scratch = scratch_path cfg @ ''/'' @ burst_id b @ ''/'' @ date_str in
     bind (call ev (Makedirs scratch True)) (\<lambda>_.
     bind (if enabled (rdr2geo_cfg cfg)
           then bind (call ev (Run_rdr2geo True)) (\<lambda>_.
                  if geocode_metadata_layers (rdr2geo_cfg cfg)
                  then raise (TypeError ''run() missing 1 required positional argument: burst'')
                  else ret ())
           else ret ()) (\<lambda>_.
     let temp_slc_path = scratch @ ''/'' @ id_pol @ ''_temp.vrt'' in
     bind (call ev (Slc_to_vrt_file b temp_slc_path)) (\<lambda>_.
     bind (if eap_phase_correction ev (ipf_version b)
           then let temp_slc_path_corrected =
                      replace_str ''_temp.vrt'' ''_corrected_temp.rdr'' temp_slc_path
                in bind (call ev (Apply_eap_correction b temp_slc_path temp_slc_path_corrected))
                     (\<lambda>_. ret temp_slc_path_corrected)
           else ret temp_slc_path) (\<lambda>temp_slc_path.
     bind (if split_spectrum_enabled cfg
           then call ev (Range_split_spectrum b temp_slc_path scratch)
           else call ev (Raster temp_slc_path)) (\<lambda>_.
     let geo_burst_raster = burst_output_path @ ''/'' @ id_pol @ ''.slc'' in
     bind (call ev (Raster_create geo_burst_raster (width geo_grid) (length_gg geo_grid)
                      (num_bands ev temp_slc_path) (output_format (geocoding_cfg cfg)))) (\<lambda>_.
     bind (call ev (Geocode_slc b geo_burst_raster temp_slc_path (dem cfg) geo_grid
                      (threshold (geo2rdr_cfg cfg)) (numiter (geo2rdr_cfg cfg))
                      (lines_per_block (geo2rdr_cfg cfg)) (flatten (geocoding_cfg cfg)))) (\<lambda>_.
     bind (call ev (Set_geotransform geo_burst_raster (geotransform geo_grid))) (\<lambda>_.
     bind (call ev (Set_epsg geo_burst_raster epsg)) (\<lambda>_.
     bind (call ev (Metadata_from_georunconfig (burst_id b))) (\<lambda>_.
     call ev (Write_json (burst_output_path @ ''/'' @ id_pol @ ''.json''))))))))))))))))"

definition s1_geocode_slc_run :: "env \<Rightarrow> runconfig \<Rightarrow> unit prog" where
  "s1_geocode_slc_run ev cfg =
     bind (call ev (Journal ''Starting s1_geocode_slc burst'')) (\<lambda>_.
     bind (for_each (\<lambda>b _. geocode_slc_burst ev cfg b) (bursts cfg) ()) (\<lambda>_.
     call ev (Journal (''s1_geocode_slc burst successfully ran in '' @ elapsed ev ''s1_geocode_slc''
                         @ '' (hr:min:sec)''))))"

section \<open>The metadata geocoding wrapper (s1_geocode_metadata.py)\<close>

text \<open>The dictionary \<open>meta_layers\<close>, in its insertion order.\<close>

definition meta_layers :: "runconfig \<Rightarrow> (string \<times> bool) list" where
  "meta_layers cfg =
     [(''x'', compute_longitude (rdr2geo_cfg cfg)),
      (''y'', compute_latitude (rdr2geo_cfg cfg)),
      (''z'', compute_height (rdr2geo_cfg cfg)),
      (''incidence'', compute_incidence_angle (rdr2geo_cfg cfg)),
      (''local_incidence'', compute_local_incidence_angle (rdr2geo_cfg cfg)),
      (''heading'', compute_azimuth_angle (rdr2geo_cfg cfg)),
      (''layover_shadow_mask'', compute_layover_shadow_mask (rdr2geo_cfg cfg))]"

text \<open>
  The body of the loop over the layers. An HDF5 dataset is addressed by the container's
  path and the layer's name; the mask layer switches the interpolator and the data type.
\<close>

definition geocode_layer ::
  "env \<Rightarrow> burst \<Rightarrow> geo_grid \<Rightarrow> string \<Rightarrow> string \<Rightarrow> nat \<Rightarrow> string \<times> bool \<Rightarrow> unit prog" where
  "geocode_layer ev b geo_grid input_path out_h5 block_size layer =
     (let layer_name = fst layer in
      if \<not> snd layer then ret ()
      else
        let mask = (layer_name = ''layover_shadow_mask'');
            output_raster = out_h5 @ '':'' @ layer_name;
            input_raster = input_path @ ''/'' @ layer_name @ ''.rdr''
        in bind (call ev (H5_create_dataset out_h5 layer_name mask (length_gg geo_grid)
                            (width geo_grid))) (\<lambda>_.
           bind (call ev (Raster output_raster)) (\<lambda>_.
           bind (call ev (Raster input_raster)) (\<lambda>_.
           bind (call ev (Geocode b layer_name input_raster output_raster block_size mask)) (\<lambda>_.
           bind (call ev (Set_geotransform output_raster (geotransform geo_grid))) (\<lambda>_.
           call ev (Set_epsg output_raster (epsg geo_grid))))))))"

text \<open>\<open>run(cfg, burst, fetch_from_scratch)\<close>: one burst, handed over by the caller.\<close>

definition s1_geocode_metadata_run :: "env \<Rightarrow> runconfig \<Rightarrow> burst \<Rightarrow> bool \<Rightarrow> unit prog" where
  "s1_geocode_metadata_run ev cfg b fetch_from_scratch =
     bind (call ev (Journal ''Starting s1_geocode_metadata burst'')) (\<lambda>_.
     bind (call ev (Raster (dem cfg))) (\<lambda>_.
     let epsg = get_epsg ev (dem cfg) in
     bind (call ev (Make_projection epsg)) (\<lambda>_.
     let date_str = strftime_Ymd (sensing_start b) in
     bind (read_geogrid (burst_id b)) (\<lambda>geo_grid.
     case output_paths cfg (burst_id b, date_str) of
       None \<Rightarrow> raise (KeyError (burst_id b @ '', '' @ date_str))
     | Some out_paths \<Rightarrow>
         let input_path = (if fetch_from_scratch then scratch_directory out_paths
                           else output_directory out_paths) in
         bind (call ev (GeocodeFloat32_init b epsg (threshold (geo2rdr_cfg cfg))
                          (numiter (geo2rdr_cfg cfg)))) (\<lambda>_.
         let block_size = lines_per_block (geo2rdr_cfg cfg) * width geo_grid * 4 in
         bind (call ev (Geogrid b geo_grid)) (\<lambda>_.
         let out_h5 = output_directory out_paths @ ''/topo.h5'' in
         bind (call ev (H5_file out_h5)) (\<lambda>_.
         bind (for_each (\<lambda>layer _. geocode_layer ev b geo_grid input_path out_h5 block_size layer)
                 (meta_layers cfg) ()) (\<lambda>_.
         call ev (Journal (''s1_geocode_metadata burst successfully ran in ''
                             @ elapsed ev ''s1_geocode_metadata'' @ '' (hr:min:sec)''))))))))))"

section \<open>The workflow dispatcher (s1_cslc.py)\<close>

text \<open>
  \<open>s1_rdr2geo.run\<close> and \<open>s1_resample.run\<close> are whole stages whose code is elsewhere: each is
  one call, \<open>Run_rdr2geo\<close> with its \<open>save_in_scratch\<close> argument (\<open>False\<close> by default) and
  \<open>Run_resample\<close>.
\<close>

definition s1_cslc_run :: "env \<Rightarrow> runconfig \<Rightarrow> unit prog" where
  "s1_cslc_run ev cfg =
     (if is_reference cfg then call ev (Run_rdr2geo False)
      else bind (s1_geo2rdr_run ev cfg) (\<lambda>_. call ev Run_resample))"

section \<open>Correction lookup tables (utils/lut.py)\<close>

definition path_exists :: "world \<Rightarrow> string \<Rightarrow> bool" where
  "path_exists w p = (p \<in> dirs w \<or> p \<in> files w)"

text \<open>
  \<open>compute_geocoding_correction_luts(burst, rg_step, az_step, dem_path, scratch_path)\<close>.
  \<open>None\<close> for \<open>dem_path\<close> is the parameter's default. The two guards are written as in the
  source: the second one raises when \<open>os.path.exists(dem_path)\<close> holds. The rebuilt azimuth
  table receives \<open>az_lut.x_spacing\<close> in both spacing positions of the constructor.
\<close>

definition compute_geocoding_correction_luts ::
  "env \<Rightarrow> burst \<Rightarrow> real \<Rightarrow> real \<Rightarrow> string option \<Rightarrow> string option
    \<Rightarrow> (lut2d \<times> lut2d) prog" where
  "compute_geocoding_correction_luts ev b rg_step az_step dem_path scratch =
     (let az_lut = bistatic_delay ev b rg_step az_step;
          rg_lut = geometrical_and_steering_doppler ev b rg_step az_step
      in case dem_path of
           None \<Rightarrow> raise (ValueError ''DEM for azimith FM rate mismatch was not provided.'')
         | Some p \<Rightarrow> (\<lambda>w.
             (if path_exists w p then raise (FileNotFoundError (''Cannot find the dem file: '' @ p))
              else
                bind (call ev (Az_fm_rate_mismatch_mitigation b p scratch
                                 [(''rangeg_step'', rg_step), (''az_step'', az_step)])) (\<lambda>_.
                let az_fm_mismatch = az_fm_rate_mismatch ev b p scratch in
                bind (call ev (Np_add (data az_lut) (data az_fm_mismatch))) (\<lambda>_.
                let az_lut_data = np_add ev (data az_lut) (data az_fm_mismatch) in
                bind (call ev (LUT2d_init (x_start az_lut) (y_start az_lut) (x_spacing az_lut)
                                 (x_spacing az_lut) az_lut_data)) (\<lambda>_.
                ret (rg_lut,
                     \<lparr>x_start = x_start az_lut, y_start = y_start az_lut,
                      x_spacing = x_spacing az_lut, y_spacing = x_spacing az_lut,
                      data = az_lut_data\<rparr>))))) w))"


section \<open>Observing a run\<close>

text \<open>The calls a program adds to the trace when started in world \<open>w\<close>.\<close>

definition calls_of :: "'a prog \<Rightarrow> world \<Rightarrow> call list" where
  "calls_of m w = drop (length (trace w)) (trace (fst (m w)))"

text \<open>How often a call with a given key occurs in a list of calls.\<close>

definition occurrences :: "(call \<Rightarrow> 'k option) \<Rightarrow> 'k \<Rightarrow> call list \<Rightarrow> nat" where
  "occurrences key k cs = length (filter (\<lambda>c. key c = Some k) cs)"

definition id_date_of :: "burst \<Rightarrow> string \<times> string" where
  "id_date_of b = (burst_id b, strftime_Ymd (sensing_start b))"

fun geo2rdr_constructed :: "call \<Rightarrow> (string \<times> string) option" where
  "geo2rdr_constructed (Geo2Rdr_init cuda b ellipsoid thr iters blocksize) = Some (id_date_of b)"
| "geo2rdr_constructed _ = None"

fun geo2rdr_invoked :: "call \<Rightarrow> (string \<times> string) option" where
  "geo2rdr_invoked (Geo2Rdr_geo2rdr b topo out) = Some (id_date_of b)"
| "geo2rdr_invoked _ = None"

section \<open>Straight-line view of the wrappers\<close>

text \<open>
  Running a list of calls in order, stopping at the first one that raises. Each wrapper is
  shown below to run such a list, computed from the configuration alone.
\<close>

primrec exec :: "env \<Rightarrow> call list \<Rightarrow> world \<Rightarrow> world \<times> error option" where
  "exec ev [] w = (w, None)"
| "exec ev (c # cs) w =
     (case perform ev c w of (w', Some e) \<Rightarrow> (w', Some e) | (w', None) \<Rightarrow> exec ev cs w')"

text \<open>The number of calls of the list that are made before the run stops.\<close>

primrec performed :: "env \<Rightarrow> call list \<Rightarrow> world \<Rightarrow> nat" where
  "performed ev [] w = 0"
| "performed ev (c # cs) w =
     (case perform ev c w of (w', Some e) \<Rightarrow> 1 | (w', None) \<Rightarrow> Suc (performed ev cs w'))"

definition run_calls :: "env \<Rightarrow> call list \<Rightarrow> 'a \<Rightarrow> 'a prog" where
  "run_calls ev cs x = (\<lambda>w. case exec ev cs w of
                             (w', Some e) \<Rightarrow> (w', Inl e)
                           | (w', None) \<Rightarrow> (w', Inr x))"

fun geo2rdr_calls ::
  "runconfig \<Rightarrow> bool \<Rightarrow> int \<Rightarrow> burst list \<Rightarrow> (string \<times> string) list \<Rightarrow> call list" where
  "geo2rdr_calls cfg cuda ellipsoid [] seen = []"
| "geo2rdr_calls cfg cuda ellipsoid (b # bs) seen =
     Makedirs (scratch_path cfg @ ''/'' @ burst_id b) True #
     (if id_date_of b \<in> set seen then geo2rdr_calls cfg cuda ellipsoid bs seen
      else
        [Raster (reference_radar_info_path cfg @ ''/topo.vrt''),
         Makedirs (scratch_path cfg @ ''/'' @ burst_id b @ ''/'' @ strftime_Ymd (sensing_start b)) True,
         Geo2Rdr_init cuda b ellipsoid (threshold (geo2rdr_cfg cfg)) (numiter (geo2rdr_cfg cfg))
           (lines_per_block (geo2rdr_cfg cfg)),
         Geo2Rdr_geo2rdr b (reference_radar_info_path cfg @ ''/topo.vrt'')
           (scratch_path cfg @ ''/'' @ burst_id b @ ''/'' @ strftime_Ymd (sensing_start b))]
        @ geo2rdr_calls cfg cuda ellipsoid bs (seen @ [id_date_of b]))"

fun geo2rdr_processed :: "burst list \<Rightarrow> (string \<times> string) list \<Rightarrow> (string \<times> string) list" where
  "geo2rdr_processed [] seen = seen"
| "geo2rdr_processed (b # bs) seen =
     (if id_date_of b \<in> set seen then geo2rdr_processed bs seen
      else geo2rdr_processed bs (seen @ [id_date_of b]))"

definition s1_geo2rdr_calls :: "env \<Rightarrow> runconfig \<Rightarrow> call list" where
  "s1_geo2rdr_calls ev cfg =
     [Journal ''Starting s1_geo2rdr burst'', Raster (dem cfg),
      Make_projection (get_epsg ev (dem cfg)), Use_gpu (gpu_enabled cfg) (gpu_id cfg)]
     @ (if use_gpu ev (gpu_enabled cfg) (gpu_id cfg) then [Set_device (gpu_id cfg)] else [])
     @ geo2rdr_calls cfg (use_gpu ev (gpu_enabled cfg) (gpu_id cfg)) (get_epsg ev (dem cfg))
         (bursts cfg) []
     @ [Journal (''s1_geo2rdr burst successfully ran in '' @ elapsed ev ''s1_geo2rdr''
                   @ '' (hr:min:sec)'')]"

section \<open>A concrete run\<close>

text \<open>
  Two bursts of one acquisition that differ in polarization only, a third burst of another
  day, an environment in which no call raises, and a world with an empty directory tree.
\<close>

definition example_burst :: "string \<Rightarrow> nat \<Rightarrow> burst" where
  "example_burst pol d =
     \<lparr>burst_id = ''t064_iw2'',
      sensing_start = \<lparr>year = 2022, month = 1, day = d, time_of_day = 0\<rparr>,
      polarization = pol, ipf_version = ''3.40'', radargrid = 0, orbit = 0,
      doppler_lut2d = 0, az_carrier_poly = 0, first_valid_line = 0, last_valid_line = 10,
      first_valid_sample = 0, last_valid_sample = 10\<rparr>"

definition example_cfg :: runconfig where
  "example_cfg =
     \<lparr>is_reference = False, dem = ''dem.tif'', gpu_enabled = False, gpu_id = 0,
      geo2rdr_cfg = \<lparr>threshold = 0, numiter = 25, lines_per_block = 1000\<rparr>,
      rdr2geo_cfg = \<lparr>enabled = False, geocode_metadata_layers = False,
        compute_longitude = True, compute_latitude = True, compute_height = False,
        compute_incidence_angle = False, compute_local_incidence_angle = False,
        compute_azimuth_angle = False, compute_layover_shadow_mask = False\<rparr>,
      geocoding_cfg = \<lparr>flatten = True, output_format = ''ENVI''\<rparr>,
      split_spectrum_enabled = False,
      bursts = [example_burst ''VV'' 5, example_burst ''VH'' 5],
      scratch_path = ''s'', product_path = ''p'', reference_radar_info_path = ''r'',
      output_paths = [(''t064_iw2'', ''20220105'') \<mapsto>
        \<lparr>output_directory = ''p/t064_iw2/20220105'',
         scratch_directory = ''s/t064_iw2/20220105''\<rparr>]\<rparr>"

definition quiet_env :: env where
  "quiet_env =
     \<lparr>fault = (\<lambda>h c. None), use_gpu = (\<lambda>e i. False), get_epsg = (\<lambda>p. 4326),
      num_bands = (\<lambda>p. 1), eap_phase_correction = (\<lambda>v. False), elapsed = (\<lambda>m. ''0:00:01''),
      bistatic_delay = (\<lambda>b rg az.
        \<lparr>x_start = 800000, y_start = 0, x_spacing = rg, y_spacing = az, data = [[1, 2]]\<rparr>),
      geometrical_and_steering_doppler = (\<lambda>b rg az.
        \<lparr>x_start = 800000, y_start = 0, x_spacing = rg, y_spacing = az, data = [[0, 0]]\<rparr>),
      az_fm_rate_mismatch = (\<lambda>b dem scratch.
        \<lparr>x_start = 800000, y_start = 0, x_spacing = 200, y_spacing = 1 / 4, data = [[3, 4]]\<rparr>),
      np_add = (\<lambda>a b. map2 (map2 (+)) a b)\<rparr>"

definition example_geo_grid :: geo_grid where
  "example_geo_grid =
     \<lparr>start_x = 0, start_y = 0, spacing_x = 5, spacing_y = -10, width = 4, length_gg = 3,
      epsg = 32611\<rparr>"

definition empty_world :: world where
  "empty_world =
     \<lparr>dirs = {}, files = {}, geogrids = [''t064_iw2'' \<mapsto> example_geo_grid], trace = [],
      created = []\<rparr>"

text \<open>The calls of \<open>compute_geocoding_correction_luts\<close> past its guards, and its value.\<close>

definition lut_value :: "env \<Rightarrow> burst \<Rightarrow> real \<Rightarrow> real \<Rightarrow> string \<Rightarrow> string option \<Rightarrow> lut2d \<times> lut2d" where
  "lut_value ev b rg az p scratch =
     (geometrical_and_steering_doppler ev b rg az,
      \<lparr>x_start = x_start (bistatic_delay ev b rg az), y_start = y_start (bistatic_delay ev b rg az),
       x_spacing = x_spacing (bistatic_delay ev b rg az),
       y_spacing = x_spacing (bistatic_delay ev b rg az),
       data = np_add ev (data (bistatic_delay ev b rg az))
                (data (az_fm_rate_mismatch ev b p scratch))\<rparr>)"

definition lut_calls :: "env \<Rightarrow> burst \<Rightarrow> real \<Rightarrow> real \<Rightarrow> string \<Rightarrow> string option \<Rightarrow> call list" where
  "lut_calls ev b rg az p scratch =
     [Az_fm_rate_mismatch_mitigation b p scratch [(''rangeg_step'', rg), (''az_step'', az)],
      Np_add (data (bistatic_delay ev b rg az)) (data (az_fm_rate_mismatch ev b p scratch)),
      LUT2d_init (x_start (bistatic_delay ev b rg az)) (y_start (bistatic_delay ev b rg az))
        (x_spacing (bistatic_delay ev b rg az)) (x_spacing (bistatic_delay ev b rg az))
        (data (snd (lut_value ev b rg az p scratch)))]"

text \<open>
  The same with an outcome that may be an error the wrapper raises itself, and for wrappers
  that read the GeoGrid dictionary of the world.
\<close>

definition run_until :: "env \<Rightarrow> call list \<Rightarrow> error + 'a \<Rightarrow> 'a prog" where
  "run_until ev cs r = (\<lambda>w. case exec ev cs w of
                             (w', Some e) \<Rightarrow> (w', Inl e)
                           | (w', None) \<Rightarrow> (w', r))"

definition with_geogrids :: "((string \<rightharpoonup> geo_grid) \<Rightarrow> 'a prog) \<Rightarrow> 'a prog" where
  "with_geogrids F = (\<lambda>w. F (geogrids w) w)"

definition geocode_slc_outcome :: "runconfig \<Rightarrow> (string \<rightharpoonup> geo_grid) \<Rightarrow> burst \<Rightarrow> error + unit" where
  "geocode_slc_outcome cfg G b =
     (case G (burst_id b) of
        None \<Rightarrow> Inl (KeyError (burst_id b))
      | Some g \<Rightarrow>
          if enabled (rdr2geo_cfg cfg) \<and> geocode_metadata_layers (rdr2geo_cfg cfg)
          then Inl (TypeError ''run() missing 1 required positional argument: burst'')
          else Inr ())"

definition slc_output_dir :: "runconfig \<Rightarrow> burst \<Rightarrow> string" where
  "slc_output_dir cfg b =
     product_path cfg @ ''/'' @ burst_id b @ ''/'' @ strftime_Ymd (sensing_start b)"

definition slc_scratch_dir :: "runconfig \<Rightarrow> burst \<Rightarrow> string" where
  "slc_scratch_dir cfg b =
     scratch_path cfg @ ''/'' @ burst_id b @ ''/'' @ strftime_Ymd (sensing_start b)"

definition slc_temp_path :: "runconfig \<Rightarrow> burst \<Rightarrow> string" where
  "slc_temp_path cfg b =
     slc_scratch_dir cfg b @ ''/'' @ (burst_id b @ ''_'' @ polarization b) @ ''_temp.vrt''"

definition slc_input_path :: "env \<Rightarrow> runconfig \<Rightarrow> burst \<Rightarrow> string" where
  "slc_input_path ev cfg b =
     (if eap_phase_correction ev (ipf_version b)
      then replace_str ''_temp.vrt'' ''_corrected_temp.rdr'' (slc_temp_path cfg b)
      else slc_temp_path cfg b)"

definition slc_raster_path :: "runconfig \<Rightarrow> burst \<Rightarrow> string" where
  "slc_raster_path cfg b =
     slc_output_dir cfg b @ ''/'' @ (burst_id b @ ''_'' @ polarization b) @ ''.slc''"

definition slc_json_path :: "runconfig \<Rightarrow> burst \<Rightarrow> string" where
  "slc_json_path cfg b =
     slc_output_dir cfg b @ ''/'' @ (burst_id b @ ''_'' @ polarization b) @ ''.json''"

definition geocode_slc_calls ::
  "env \<Rightarrow> runconfig \<Rightarrow> (string \<rightharpoonup> geo_grid) \<Rightarrow> burst \<Rightarrow> call list" where
  "geocode_slc_calls ev cfg G b =
     [Raster (dem cfg), Make_projection (get_epsg ev (dem cfg))] @
     (case G (burst_id b) of
        None \<Rightarrow> []
      | Some g \<Rightarrow>
          [Makedirs (slc_output_dir cfg b) True, Makedirs (slc_scratch_dir cfg b) True] @
          (if enabled (rdr2geo_cfg cfg) then [Run_rdr2geo True] else []) @
          (if enabled (rdr2geo_cfg cfg) \<and> geocode_metadata_layers (rdr2geo_cfg cfg) then []
           else
             [Slc_to_vrt_file b (slc_temp_path cfg b)] @
             (if eap_phase_correction ev (ipf_version b)
              then [Apply_eap_correction b (slc_temp_path cfg b) (slc_input_path ev cfg b)]
              else []) @
             [if split_spectrum_enabled cfg
              then Range_split_spectrum b (slc_input_path ev cfg b) (slc_scratch_dir cfg b)
              else Raster (slc_input_path ev cfg b),
              Raster_create (slc_raster_path cfg b) (width g) (length_gg g)
                (num_bands ev (slc_input_path ev cfg b)) (output_format (geocoding_cfg cfg)),
              Geocode_slc b (slc_raster_path cfg b) (slc_input_path ev cfg b) (dem cfg) g
                (threshold (geo2rdr_cfg cfg)) (numiter (geo2rdr_cfg cfg))
                (lines_per_block (geo2rdr_cfg cfg)) (flatten (geocoding_cfg cfg)),
              Set_geotransform (slc_raster_path cfg b) (geotransform g),
              Set_epsg (slc_raster_path cfg b) (get_epsg ev (dem cfg)),
              Metadata_from_georunconfig (burst_id b),
              Write_json (slc_json_path cfg b)]))"

fun geocode_slc_loop_calls ::
  "env \<Rightarrow> runconfig \<Rightarrow> (string \<rightharpoonup> geo_grid) \<Rightarrow> burst list \<Rightarrow> call list" where
  "geocode_slc_loop_calls ev cfg G [] = []"
| "geocode_slc_loop_calls ev cfg G (b # bs) =
     geocode_slc_calls ev cfg G b @
     (case geocode_slc_outcome cfg G b of
        Inl e \<Rightarrow> []
      | Inr u \<Rightarrow> geocode_slc_loop_calls ev cfg G bs)"

fun geocode_slc_loop_outcome ::
  "runconfig \<Rightarrow> (string \<rightharpoonup> geo_grid) \<Rightarrow> burst list \<Rightarrow> error + unit" where
  "geocode_slc_loop_outcome cfg G [] = Inr ()"
| "geocode_slc_loop_outcome cfg G (b # bs) =
     (case geocode_slc_outcome cfg G b of
        Inl e \<Rightarrow> Inl e
      | Inr u \<Rightarrow> geocode_slc_loop_outcome cfg G bs)"

definition s1_geocode_slc_calls ::
  "env \<Rightarrow> runconfig \<Rightarrow> (string \<rightharpoonup> geo_grid) \<Rightarrow> call list" where
  "s1_geocode_slc_calls ev cfg G =
     [Journal ''Starting s1_geocode_slc burst''] @
     geocode_slc_loop_calls ev cfg G (bursts cfg) @
     (case geocode_slc_loop_outcome cfg G (bursts cfg) of
        Inl e \<Rightarrow> []
      | Inr u \<Rightarrow> [Journal (''s1_geocode_slc burst successfully ran in ''
                             @ elapsed ev ''s1_geocode_slc'' @ '' (hr:min:sec)'')])"

section \<open>Properties\<close>

subsection \<open>Wrappers as call lists\<close>

lemma exec_append:
  "exec ev (cs @ ds) w =
     (case exec ev cs w of (w', Some e) \<Rightarrow> (w', Some e) | (w', None) \<Rightarrow> exec ev ds w')"
  by (induction cs arbitrary: w) (auto split: prod.splits option.splits)

lemma call_run_calls: "call ev c = run_calls ev [c] ()"
  by (auto simp: call_def run_calls_def fun_eq_iff split: prod.splits option.splits)

lemma ret_run_calls: "ret x = run_calls ev [] x"
  by (simp add: ret_def run_calls_def)

lemma bind_run_calls:
  "bind (run_calls ev cs x) (\<lambda>v. run_calls ev (ds v) (g v)) = run_calls ev (cs @ ds x) (g x)"
  by (auto simp: bind_def run_calls_def exec_append fun_eq_iff split: prod.splits option.splits)

lemma if_run_calls:
  "(if P then run_calls ev cs x else run_calls ev ds y) =
     run_calls ev (if P then cs else ds) (if P then x else y)"
  by simp

lemma geo2rdr_burst_calls:
  "geo2rdr_burst ev cfg cuda ell b seen =
     run_calls ev (geo2rdr_calls cfg cuda ell [b] seen) (geo2rdr_processed [b] seen)"
  by (simp add: geo2rdr_burst_def Let_def call_run_calls id_date_of_def
       ret_run_calls[of _ ev] if_run_calls bind_run_calls)

lemma geo2rdr_calls_Cons:
  "geo2rdr_calls cfg cuda ell (b # bs) seen =
     geo2rdr_calls cfg cuda ell [b] seen @ geo2rdr_calls cfg cuda ell bs (geo2rdr_processed [b] seen)"
  by simp

lemma geo2rdr_processed_Cons:
  "geo2rdr_processed (b # bs) seen = geo2rdr_processed bs (geo2rdr_processed [b] seen)"
  by simp

lemma geo2rdr_loop_calls:
  "for_each (geo2rdr_burst ev cfg cuda ell) bs seen =
     run_calls ev (geo2rdr_calls cfg cuda ell bs seen) (geo2rdr_processed bs seen)"
proof (induction bs arbitrary: seen)
  case Nil
  show ?case by (simp add: ret_run_calls[of _ ev])
next
  case (Cons b bs)
  have rest: "for_each (geo2rdr_burst ev cfg cuda ell) bs =
          (\<lambda>d. run_calls ev (geo2rdr_calls cfg cuda ell bs d) (geo2rdr_processed bs d))"
    by (rule ext) (rule Cons.IH)
  have "for_each (geo2rdr_burst ev cfg cuda ell) (b # bs) seen =
          bind (run_calls ev (geo2rdr_calls cfg cuda ell [b] seen) (geo2rdr_processed [b] seen))
            (\<lambda>d. run_calls ev (geo2rdr_calls cfg cuda ell bs d) (geo2rdr_processed bs d))"
    by (simp only: for_each.simps geo2rdr_burst_calls rest)
  also have "\<dots> = run_calls ev (geo2rdr_calls cfg cuda ell (b # bs) seen)
                     (geo2rdr_processed (b # bs) seen)"
    by (simp only: bind_run_calls geo2rdr_calls_Cons[symmetric] geo2rdr_processed_Cons[symmetric])
  finally show ?case .
qed

lemma s1_geo2rdr_run_calls: "s1_geo2rdr_run ev cfg = run_calls ev (s1_geo2rdr_calls ev cfg) ()"
  by (simp add: s1_geo2rdr_run_def s1_geo2rdr_calls_def Let_def call_run_calls
       ret_run_calls[of _ ev] if_run_calls bind_run_calls geo2rdr_loop_calls)


lemma makedirs_trace: "makedirs name ok w = Inr w' \<Longrightarrow> trace w' = trace w"
  by (auto simp: makedirs_def Let_def split: if_splits option.splits)

lemma perform_trace: "trace (fst (perform ev c w)) = trace w @ [c]"
  by (auto simp: perform_def Let_def split: option.splits sum.splits dest: makedirs_trace)

lemma perform_trace': "perform ev c w = (w1, r) \<Longrightarrow> trace w1 = trace w @ [c]"
  using perform_trace[of ev c w] by simp

lemma exec_trace: "trace (fst (exec ev cs w)) = trace w @ take (performed ev cs w) cs"
  by (induction cs arbitrary: w)
     (auto split: prod.splits option.splits dest: perform_trace')

lemma performed_le: "performed ev cs w \<le> length cs"
  by (induction cs arbitrary: w) (auto split: prod.splits option.splits)

lemma performed_all: "snd (exec ev cs w) = None \<Longrightarrow> performed ev cs w = length cs"
  by (induction cs arbitrary: w) (auto split: prod.splits option.splits)

lemma calls_of_run_calls: "calls_of (run_calls ev cs x) w = take (performed ev cs w) cs"
  by (simp add: calls_of_def run_calls_def exec_trace split: prod.splits option.splits)
     (metis exec_trace fst_conv append_eq_conv_conj)

lemma run_calls_all: "snd (run_calls ev cs x w) = Inr y \<Longrightarrow> performed ev cs w = length cs"
proof -
  assume "snd (run_calls ev cs x w) = Inr y"
  then have "snd (exec ev cs w) = None"
    by (auto simp: run_calls_def split: prod.splits option.splits)
  then show ?thesis by (rule performed_all)
qed

subsection \<open>Counting calls\<close>

lemma occurrences_Nil [simp]: "occurrences key p [] = 0"
  by (simp add: occurrences_def)

lemma occurrences_Cons [simp]:
  "occurrences key p (c # cs) = (if key c = Some p then 1 else 0) + occurrences key p cs"
  by (simp add: occurrences_def)

lemma occurrences_append [simp]:
  "occurrences key p (cs @ ds) = occurrences key p cs + occurrences key p ds"
  by (simp add: occurrences_def)

lemma occurrences_take: "occurrences key p (take k cs) \<le> occurrences key p cs"
proof -
  have "occurrences key p (take k cs @ drop k cs) =
          occurrences key p (take k cs) + occurrences key p (drop k cs)"
    by (rule occurrences_append)
  then show ?thesis by simp
qed

lemma geo2rdr_calls_invoked:
  "occurrences geo2rdr_invoked p (geo2rdr_calls cfg cuda ell bs seen) =
     (if p \<notin> set seen \<and> p \<in> id_date_of ` set bs then 1 else 0)"
  by (induction bs arbitrary: seen) auto

lemma geo2rdr_calls_constructed:
  "occurrences geo2rdr_constructed p (geo2rdr_calls cfg cuda ell bs seen) =
     (if p \<notin> set seen \<and> p \<in> id_date_of ` set bs then 1 else 0)"
  by (induction bs arbitrary: seen) auto

lemma s1_geo2rdr_calls_invoked:
  "occurrences geo2rdr_invoked p (s1_geo2rdr_calls ev cfg) =
     (if p \<in> id_date_of ` set (bursts cfg) then 1 else 0)"
  by (simp add: s1_geo2rdr_calls_def geo2rdr_calls_invoked)

lemma s1_geo2rdr_calls_constructed:
  "occurrences geo2rdr_constructed p (s1_geo2rdr_calls ev cfg) =
     (if p \<in> id_date_of ` set (bursts cfg) then 1 else 0)"
  by (simp add: s1_geo2rdr_calls_def geo2rdr_calls_constructed)

subsection \<open>The dispatcher\<close>

lemma performed_append:
  "performed ev (cs @ ds) w =
     (case exec ev cs w of
        (w', Some e) \<Rightarrow> performed ev cs w
      | (w', None) \<Rightarrow> length cs + performed ev ds w')"
  by (induction cs arbitrary: w) (auto split: prod.splits option.splits)

lemma calls_of_call: "calls_of (call ev c) w = [c]"
  by (simp add: call_run_calls calls_of_run_calls split: prod.splits option.splits)

lemma run_calls_snd:
  "snd (run_calls ev cs x w) = (case snd (exec ev cs w) of None \<Rightarrow> Inr x | Some e \<Rightarrow> Inl e)"
  by (simp add: run_calls_def split: prod.splits option.splits)

lemma geo2rdr_calls_stages:
  "Run_resample \<notin> set (geo2rdr_calls cfg cuda ell bs seen) \<and>
   Run_rdr2geo s \<notin> set (geo2rdr_calls cfg cuda ell bs seen)"
  by (induction bs arbitrary: seen) auto

lemma s1_geo2rdr_calls_stages:
  "Run_resample \<notin> set (s1_geo2rdr_calls ev cfg) \<and> Run_rdr2geo s \<notin> set (s1_geo2rdr_calls ev cfg)"
  using geo2rdr_calls_stages[of cfg] by (simp add: s1_geo2rdr_calls_def)

lemma s1_cslc_run_calls:
  "\<not> is_reference cfg \<Longrightarrow>
     s1_cslc_run ev cfg = run_calls ev (s1_geo2rdr_calls ev cfg @ [Run_resample]) ()"
  by (simp add: s1_cslc_run_def s1_geo2rdr_run_calls call_run_calls bind_run_calls)

lemma not_in_take: "x \<notin> set xs \<Longrightarrow> x \<notin> set (take k xs)"
  by (meson in_set_takeD)

subsection \<open>The correction lookup tables\<close>

lemma lut_run_calls:
  "\<not> path_exists w p \<Longrightarrow>
   compute_geocoding_correction_luts ev b rg az (Some p) scratch w =
     run_calls ev (lut_calls ev b rg az p scratch) (lut_value ev b rg az p scratch) w"
  by (simp add: compute_geocoding_correction_luts_def Let_def call_run_calls lut_calls_def
        lut_value_def ret_run_calls[of _ ev] bind_run_calls)

lemma calls_of_cong: "m w = m' w \<Longrightarrow> calls_of m w = calls_of m' w"
  by (simp add: calls_of_def)





lemma lut_None:
  "compute_geocoding_correction_luts ev b rg az None scratch =
     raise (ValueError ''DEM for azimith FM rate mismatch was not provided.'')"
  by (simp add: compute_geocoding_correction_luts_def Let_def)

lemma lut_exists:
  "path_exists w p \<Longrightarrow>
   compute_geocoding_correction_luts ev b rg az (Some p) scratch w =
     raise (FileNotFoundError (''Cannot find the dem file: '' @ p)) w"
  by (simp add: compute_geocoding_correction_luts_def Let_def)

lemma lut_missing_calls:
  assumes "\<not> path_exists w p"
  shows "calls_of (compute_geocoding_correction_luts ev b rg az (Some p) scratch) w =
           take (performed ev (lut_calls ev b rg az p scratch) w) (lut_calls ev b rg az p scratch)"
proof -
  have "calls_of (compute_geocoding_correction_luts ev b rg az (Some p) scratch) w =
        calls_of (run_calls ev (lut_calls ev b rg az p scratch) (lut_value ev b rg az p scratch)) w"
    by (rule calls_of_cong) (rule lut_run_calls[OF assms])
  then show ?thesis by (simp only: calls_of_run_calls)
qed


subsection \<open>Wrappers that read the GeoGrid dictionary\<close>

lemma call_run_until: "call ev c = run_until ev [c] (Inr ())"
  by (auto simp: call_def run_until_def fun_eq_iff split: prod.splits option.splits)

lemma ret_run_until: "ret x = run_until ev [] (Inr x)"
  by (simp add: ret_def run_until_def)

lemma raise_run_until: "raise e = run_until ev [] (Inl e)"
  by (simp add: raise_def run_until_def)

lemma bind_run_until:
  "bind (run_until ev cs r) (\<lambda>v. run_until ev (ds v) (r2 v)) =
     run_until ev (cs @ (case r of Inl e \<Rightarrow> [] | Inr x \<Rightarrow> ds x))
       (case r of Inl e \<Rightarrow> Inl e | Inr x \<Rightarrow> r2 x)"
  by (auto simp: bind_def run_until_def exec_append fun_eq_iff
        split: prod.splits option.splits sum.splits)

lemma if_run_until:
  "(if P then run_until ev cs x else run_until ev ds y) =
     run_until ev (if P then cs else ds) (if P then x else y)"
  by simp

lemma case_option_run_until:
  "(case x of None \<Rightarrow> run_until ev cs r | Some g \<Rightarrow> run_until ev (ds g) (r2 g)) =
     run_until ev (case x of None \<Rightarrow> cs | Some g \<Rightarrow> ds g)
       (case x of None \<Rightarrow> r | Some g \<Rightarrow> r2 g)"
  by (simp split: option.splits)

lemma perform_geogrids: "geogrids (fst (perform ev c w)) = geogrids w"
  by (auto simp: perform_def makedirs_def Let_def split: option.splits sum.splits if_splits)

lemma exec_geogrids: "geogrids (fst (exec ev cs w)) = geogrids w"
proof (induction cs arbitrary: w)
  case Nil
  show ?case by simp
next
  case (Cons c cs)
  show ?case
    using Cons.IH[of "fst (perform ev c w)"] perform_geogrids[of ev c w]
    by (cases "perform ev c w") (auto split: option.splits)
qed

lemma read_geogrid_with:
  "read_geogrid k =
     with_geogrids (\<lambda>G. run_until ev []
        (case G k of None \<Rightarrow> Inl (KeyError k) | Some g \<Rightarrow> Inr g))"
  by (auto simp: read_geogrid_def with_geogrids_def run_until_def fun_eq_iff split: option.splits)

lemma bind_with_geogrids:
  "bind (with_geogrids F) f = with_geogrids (\<lambda>G. bind (F G) f)"
  by (simp add: bind_def with_geogrids_def)

lemma bind_run_until_with:
  "bind (run_until ev cs r) (\<lambda>v. with_geogrids (F v)) =
     with_geogrids (\<lambda>G. bind (run_until ev cs r) (\<lambda>v. F v G))"
proof (rule ext)
  fix w
  obtain w1 r1 where e: "exec ev cs w = (w1, r1)" by (cases "exec ev cs w")
  have g: "geogrids w1 = geogrids w" using exec_geogrids[of ev cs w] e by simp
  show "bind (run_until ev cs r) (\<lambda>v. with_geogrids (F v)) w =
        with_geogrids (\<lambda>G. bind (run_until ev cs r) (\<lambda>v. F v G)) w"
    by (simp add: bind_def run_until_def with_geogrids_def e g split: option.splits sum.splits)
qed

lemma with_with_geogrids:
  "with_geogrids (\<lambda>G. with_geogrids (F G)) = with_geogrids (\<lambda>G. F G G)"
  by (simp add: with_geogrids_def)

section \<open>Claims\<close>

lemma example_geo2rdr_returns:
  "snd (s1_geo2rdr_run quiet_env example_cfg empty_world) = Inr ()"
  by code_simp

text \<open>
  Claim C1. \<open>s1_cslc.run\<close> dispatches on \<open>cfg.is_reference\<close> alone. For a reference
  burst the only stage call of the run is the topography stage \<open>s1_rdr2geo.run(cfg)\<close>. For a
  secondary burst the topography stage is never called, the run starts with the geo2rdr
  wrapper (which itself calls neither other stage), and when geo2rdr returns the run is
  geo2rdr's calls followed by the one call of \<open>s1_resample.run(cfg)\<close>.
\<close>

theorem cslc_dispatch:
  "(is_reference cfg \<longrightarrow> calls_of (s1_cslc_run ev cfg) w = [Run_rdr2geo False]) \<and>
   (\<not> is_reference cfg \<longrightarrow>
      (\<forall>s. Run_rdr2geo s \<notin> set (calls_of (s1_cslc_run ev cfg) w)) \<and>
      Run_resample \<notin> set (calls_of (s1_geo2rdr_run ev cfg) w) \<and>
      take 1 (calls_of (s1_cslc_run ev cfg) w) = [Journal ''Starting s1_geo2rdr burst''] \<and>
      (snd (s1_geo2rdr_run ev cfg w) = Inr () \<longrightarrow>
         calls_of (s1_cslc_run ev cfg) w = calls_of (s1_geo2rdr_run ev cfg) w @ [Run_resample]))"
proof (intro conjI impI allI)
  assume "is_reference cfg"
  then show "calls_of (s1_cslc_run ev cfg) w = [Run_rdr2geo False]"
    by (simp add: s1_cslc_run_def calls_of_call)
next
  fix s
  assume n: "\<not> is_reference cfg"
  have "Run_rdr2geo s \<notin> set (s1_geo2rdr_calls ev cfg @ [Run_resample])"
    using s1_geo2rdr_calls_stages[of ev cfg s] by simp
  then show "Run_rdr2geo s \<notin> set (calls_of (s1_cslc_run ev cfg) w)"
    unfolding s1_cslc_run_calls[OF n] calls_of_run_calls by (rule not_in_take)
next
  show "Run_resample \<notin> set (calls_of (s1_geo2rdr_run ev cfg) w)"
    unfolding s1_geo2rdr_run_calls calls_of_run_calls
    using s1_geo2rdr_calls_stages[of ev cfg] by (intro not_in_take) simp
next
  assume n: "\<not> is_reference cfg"
  show "take 1 (calls_of (s1_cslc_run ev cfg) w) = [Journal ''Starting s1_geo2rdr burst'']"
    unfolding s1_cslc_run_calls[OF n] calls_of_run_calls
    by (simp add: s1_geo2rdr_calls_def split: prod.splits option.splits)
next
  assume n: "\<not> is_reference cfg" and ok: "snd (s1_geo2rdr_run ev cfg w) = Inr ()"
  let ?cs = "s1_geo2rdr_calls ev cfg"
  from ok have none: "snd (exec ev ?cs w) = None"
    by (simp add: s1_geo2rdr_run_calls run_calls_snd split: option.splits)
  have all: "performed ev ?cs w = length ?cs" using none by (rule performed_all)
  obtain w1 where w1: "exec ev ?cs w = (w1, None)"
    using none by (cases "exec ev ?cs w") simp
  have "performed ev (?cs @ [Run_resample]) w = length ?cs + 1"
    by (simp add: performed_append w1 split: prod.splits option.splits)
  then show "calls_of (s1_cslc_run ev cfg) w = calls_of (s1_geo2rdr_run ev cfg) w @ [Run_resample]"
    unfolding s1_cslc_run_calls[OF n] s1_geo2rdr_run_calls calls_of_run_calls
    by (simp add: all)
qed

theorem cslc_dispatch_witness:
  "is_reference (example_cfg\<lparr>is_reference := True\<rparr>) \<and>
   calls_of (s1_cslc_run quiet_env (example_cfg\<lparr>is_reference := True\<rparr>)) empty_world
     = [Run_rdr2geo False] \<and>
   \<not> is_reference example_cfg \<and>
   snd (s1_geo2rdr_run quiet_env example_cfg empty_world) = Inr () \<and>
   Run_rdr2geo False \<notin> set (calls_of (s1_cslc_run quiet_env example_cfg) empty_world) \<and>
   calls_of (s1_cslc_run quiet_env example_cfg) empty_world
     = calls_of (s1_geo2rdr_run quiet_env example_cfg) empty_world @ [Run_resample]"
proof -
  have r: "is_reference (example_cfg\<lparr>is_reference := True\<rparr>)" by simp
  have n: "\<not> is_reference example_cfg" by (simp add: example_cfg_def)
  show ?thesis
    using cslc_dispatch[of "example_cfg\<lparr>is_reference := True\<rparr>" quiet_env empty_world]
      cslc_dispatch[of example_cfg quiet_env empty_world] r n example_geo2rdr_returns
    by blast
qed

text \<open>
  Claim C2. However many bursts of the configured list share one (burst id, sensing date)
  pair, \<open>s1_geo2rdr.run\<close> constructs at most one geo2rdr object and invokes the
  \<open>geo2rdr\<close> method at most once for the pair, and exactly once each in a run that returns.
\<close>

theorem geo2rdr_once_per_id_date:
  assumes "b \<in> set (bursts cfg)"
  shows "occurrences geo2rdr_constructed (id_date_of b) (calls_of (s1_geo2rdr_run ev cfg) w) \<le> 1
       \<and> occurrences geo2rdr_invoked (id_date_of b) (calls_of (s1_geo2rdr_run ev cfg) w) \<le> 1
       \<and> (snd (s1_geo2rdr_run ev cfg w) = Inr () \<longrightarrow>
            occurrences geo2rdr_constructed (id_date_of b) (calls_of (s1_geo2rdr_run ev cfg) w) = 1
          \<and> occurrences geo2rdr_invoked (id_date_of b) (calls_of (s1_geo2rdr_run ev cfg) w) = 1)"
proof -
  let ?cs = "s1_geo2rdr_calls ev cfg"
  let ?k = "performed ev ?cs w"
  have k: "calls_of (s1_geo2rdr_run ev cfg) w = take ?k ?cs"
    by (simp only: s1_geo2rdr_run_calls calls_of_run_calls)
  have i: "occurrences geo2rdr_invoked (id_date_of b) ?cs = 1"
    and c: "occurrences geo2rdr_constructed (id_date_of b) ?cs = 1"
    using assms by (simp_all add: s1_geo2rdr_calls_invoked s1_geo2rdr_calls_constructed)
  have le: "occurrences geo2rdr_invoked (id_date_of b) (take ?k ?cs) \<le> 1"
    "occurrences geo2rdr_constructed (id_date_of b) (take ?k ?cs) \<le> 1"
    using occurrences_take[of geo2rdr_invoked "id_date_of b" ?k ?cs]
      occurrences_take[of geo2rdr_constructed "id_date_of b" ?k ?cs] i c by simp_all
  have eq: "occurrences geo2rdr_constructed (id_date_of b) (take ?k ?cs) = 1 \<and>
      occurrences geo2rdr_invoked (id_date_of b) (take ?k ?cs) = 1"
    if "snd (s1_geo2rdr_run ev cfg w) = Inr ()"
  proof -
    have "?k = length ?cs"
      using that unfolding s1_geo2rdr_run_calls by (rule run_calls_all)
    then show ?thesis using i c by simp
  qed
  show ?thesis
    unfolding k using le eq by blast
qed

theorem geo2rdr_once_per_id_date_witness:
  "example_burst ''VH'' 5 \<in> set (bursts example_cfg) \<and>
   id_date_of (example_burst ''VH'' 5) = id_date_of (example_burst ''VV'' 5) \<and>
   snd (s1_geo2rdr_run quiet_env example_cfg empty_world) = Inr () \<and>
   occurrences geo2rdr_constructed (id_date_of (example_burst ''VH'' 5))
     (calls_of (s1_geo2rdr_run quiet_env example_cfg) empty_world) = 1 \<and>
   occurrences geo2rdr_invoked (id_date_of (example_burst ''VH'' 5))
     (calls_of (s1_geo2rdr_run quiet_env example_cfg) empty_world) = 1"
proof -
  have m: "example_burst ''VH'' 5 \<in> set (bursts example_cfg)"
    by (simp add: example_cfg_def)
  have p: "id_date_of (example_burst ''VH'' 5) = id_date_of (example_burst ''VV'' 5)"
    by (simp add: id_date_of_def example_burst_def)
  have r: "snd (s1_geo2rdr_run quiet_env example_cfg empty_world) = Inr ()"
    by (rule example_geo2rdr_returns)
  show ?thesis
    using geo2rdr_once_per_id_date[OF m, of quiet_env empty_world] m p r by blast
qed



text \<open>
  Claim C10. Whenever \<open>compute_geocoding_correction_luts\<close> returns a pair, the azimuth table
  it returns was built by a constructor call that received the bistatic-delay table's
  \<open>x_spacing\<close> in both spacing positions, so its \<open>y_spacing\<close> equals its \<open>x_spacing\<close>, whatever
  the \<open>y_spacing\<close> of the bistatic-delay table was.
\<close>

theorem lut_azimuth_spacing:
  assumes "snd (compute_geocoding_correction_luts ev b rg az dem_path scratch w) =
             Inr (rg_lut, az_lut)"
  shows "y_spacing az_lut = x_spacing az_lut \<and>
         x_spacing az_lut = x_spacing (bistatic_delay ev b rg az) \<and>
         (\<exists>x0 y0 dx d. last (calls_of (compute_geocoding_correction_luts ev b rg az dem_path scratch) w)
            = LUT2d_init x0 y0 dx dx d \<and> dx = x_spacing (bistatic_delay ev b rg az))"
proof (cases dem_path)
  case None
  with assms show ?thesis by (simp add: lut_None raise_def)
next
  case (Some p)
  show ?thesis
  proof (cases "path_exists w p")
    case True
    with assms Some show ?thesis by (simp add: lut_exists raise_def)
  next
    case False
    let ?cs = "lut_calls ev b rg az p scratch"
    have run: "snd (run_calls ev ?cs (lut_value ev b rg az p scratch) w) = Inr (rg_lut, az_lut)"
      using assms unfolding Some lut_run_calls[OF False] .
    then have all: "performed ev ?cs w = length ?cs" by (rule run_calls_all)
    have v: "lut_value ev b rg az p scratch = (rg_lut, az_lut)"
      using run by (simp add: run_calls_snd split: option.splits)
    have cs: "calls_of (compute_geocoding_correction_luts ev b rg az dem_path scratch) w = ?cs"
      unfolding Some lut_missing_calls[OF False] all by simp
    show ?thesis
      unfolding cs using v by (auto simp: lut_calls_def lut_value_def)
  qed
qed

theorem lut_azimuth_spacing_witness:
  "y_spacing (bistatic_delay quiet_env (example_burst ''VV'' 5) 200 (1/4)) \<noteq>
     x_spacing (bistatic_delay quiet_env (example_burst ''VV'' 5) 200 (1/4)) \<and>
   (\<exists>rg_lut az_lut.
      snd (compute_geocoding_correction_luts quiet_env (example_burst ''VV'' 5) 200 (1/4)
             (Some ''dem.tif'') None empty_world) = Inr (rg_lut, az_lut) \<and>
      y_spacing az_lut = 200 \<and> x_spacing az_lut = 200)"
proof -
  have n: "\<not> path_exists empty_world ''dem.tif''"
    by (simp add: path_exists_def empty_world_def)
  have q: "\<And>h c. fault quiet_env h c = None" by (simp add: quiet_env_def)
  have r: "snd (compute_geocoding_correction_luts quiet_env (example_burst ''VV'' 5) 200 (1/4)
             (Some ''dem.tif'') None empty_world) =
           Inr (lut_value quiet_env (example_burst ''VV'' 5) 200 (1/4) ''dem.tif'' None)"
    by (simp add: lut_run_calls[OF n] run_calls_def lut_calls_def perform_def q
          split: prod.splits option.splits)
  obtain rg_lut az_lut where
    v: "lut_value quiet_env (example_burst ''VV'' 5) 200 (1/4) ''dem.tif'' None = (rg_lut, az_lut)"
    by (cases "lut_value quiet_env (example_burst ''VV'' 5) 200 (1/4) ''dem.tif'' None")
  have s: "y_spacing az_lut = x_spacing az_lut \<and>
           x_spacing az_lut = x_spacing (bistatic_delay quiet_env (example_burst ''VV'' 5) 200 (1/4))"
    using lut_azimuth_spacing[OF r[unfolded v]] by blast
  have b: "x_spacing (bistatic_delay quiet_env (example_burst ''VV'' 5) 200 (1/4)) = 200"
    "y_spacing (bistatic_delay quiet_env (example_burst ''VV'' 5) 200 (1/4)) = 1/4"
    by (simp_all add: quiet_env_def)
  show ?thesis using r v s b by simp
qed

end
